theory Spec2Isabelle
  imports Main
begin

section \<open>Responses\<close>

text \<open>
  Every controller of the repository is an Express handler: it either answers with a
  success payload, answers with an error status of its own, or hands an exception to
  \<^verbatim>\<open>next(err)\<close>. A handler is modelled as a function from the request and the
  collections it touches to a pair: the response (\<open>Inl\<close> an error, \<open>Inr\<close> the payload)
  and the collection after the request. The error datatype has one constructor per error
  answer of \<^verbatim>\<open>controllers/ordersController.js\<close> and of the user controller.
\<close>

type_synonym objectId = string

datatype error =
    FlowerNotFound objectId
      \<comment> \<open>\<^verbatim>\<open>new Error(`Flower not found with ID ${item.flower}`)\<close>, statusCode 400\<close>
  | InvalidStatus
      \<comment> \<open>\<^verbatim>\<open>res.status(400).json({ message: 'Invalid status' })\<close>\<close>
  | OrderNotFound objectId
      \<comment> \<open>\<^verbatim>\<open>new Error(`Order not found with ID ${req.params.id}`)\<close>, statusCode 404\<close>
  | NoSession
      \<comment> \<open>401, "Not authorized, no user session found."\<close>
  | UserNotFound
      \<comment> \<open>404, "User not found"\<close>
  | NotAuthorizedView
      \<comment> \<open>403, "Not authorized to view this user profile"\<close>
  | NotAuthorizedUpdate
      \<comment> \<open>403, "Not authorized to update this user profile"\<close>
  | NotAuthorizedRole
      \<comment> \<open>403, "Not authorized to change user role"\<close>
  | LastAdmin
      \<comment> \<open>400, "Cannot delete the last admin user."\<close>
  | Thrown string
      \<comment> \<open>an exception caught by the handler's \<^verbatim>\<open>catch\<close> and passed to \<^verbatim>\<open>next\<close>\<close>

section \<open>Orders: \<^verbatim>\<open>controllers/ordersController.js\<close>\<close>

subsection \<open>Documents\<close>

text \<open>
  JavaScript numbers are a type parameter \<open>'n\<close> with a zero, an addition and a
  multiplication, of which no law is assumed: every theorem about prices holds of IEEE
  doubles as it does of exact decimals. The controller reads two fields of a flower
  document, \<^verbatim>\<open>_id\<close> and \<^verbatim>\<open>price\<close>.
\<close>

record 'n flowerDoc =
  flower_id :: objectId
  price :: 'n

text \<open>An entry of \<^verbatim>\<open>req.body.items\<close>, and the line item the loop pushes for it
  (\<^verbatim>\<open>{ flower: flower._id, quantity: item.quantity, priceAtPurchase }\<close>).\<close>

record 'n itemReq =
  flower :: objectId
  quantity :: 'n

record 'n orderItem = "'n itemReq" +
  priceAtPurchase :: 'n

record 'n order =
  order_id :: objectId
  user :: objectId
  items :: "'n orderItem list"
  totalAmount :: 'n
  shippingAddress :: string
  status :: string
  createdAt :: nat
  updatedAt :: nat

subsection \<open>Collections\<close>

text \<open>A collection is the list of its documents; \<^verbatim>\<open>Model.findById\<close> returns the
  document with the given \<^verbatim>\<open>_id\<close>, or null. An id is an opaque string: Mongoose's
  refusal to cast a malformed id is outside the model.\<close>

definition Flower_findById :: "'n flowerDoc list \<Rightarrow> objectId \<Rightarrow> 'n flowerDoc option" where
  "Flower_findById flowers i = find (\<lambda>f. flower_id f = i) flowers"

definition Order_findById :: "'n order list \<Rightarrow> objectId \<Rightarrow> 'n order option" where
  "Order_findById orders i = find (\<lambda>ord. order_id ord = i) orders"

text \<open>
  Modelled from the spec: \<^verbatim>\<open>models/Order.js\<close> is not among the sources. Per section 4.5
  of the specification a created order has status \<open>pending\<close> and
  \<open>createdAt = updatedAt = now\<close>, and is stored as one document. What the schema's
  validators accept is the parameter \<open>valid\<close>; a rejected document raises a
  validation error out of \<^verbatim>\<open>save()\<close> and nothing is stored. \<open>now\<close> is
  \<^verbatim>\<open>Date.now()\<close> and \<open>newId\<close> the \<^verbatim>\<open>_id\<close> the document receives.
\<close>

definition newOrder ::
  "nat \<Rightarrow> objectId \<Rightarrow> objectId \<Rightarrow> 'n orderItem list \<Rightarrow> 'n \<Rightarrow> string \<Rightarrow> 'n order" where
  "newOrder now newId user' orderItems totalAmount' shippingAddress' =
     \<lparr>order_id = newId, user = user', items = orderItems, totalAmount = totalAmount',
      shippingAddress = shippingAddress', status = ''pending'',
      createdAt = now, updatedAt = now\<rparr>"

definition Order_save ::
  "('n order \<Rightarrow> bool) \<Rightarrow> 'n order \<Rightarrow> 'n order list \<Rightarrow> (error + 'n order) \<times> 'n order list" where
  "Order_save valid doc orders =
     (if valid doc then (Inr doc, orders @ [doc])
      else (Inl (Thrown ''ValidationError''), orders))"

text \<open>\<^verbatim>\<open>Order.findByIdAndUpdate(id, update, { new: true })\<close>: the first document with
  the id is replaced by its update; the result is the updated document, or null when no
  document has the id.\<close>

fun Order_findByIdAndUpdate ::
  "'n order list \<Rightarrow> objectId \<Rightarrow> ('n order \<Rightarrow> 'n order) \<Rightarrow> ('n order \<times> 'n order list) option" where
  "Order_findByIdAndUpdate [] i upd = None"
| "Order_findByIdAndUpdate (ord # orders) i upd =
     (if order_id ord = i then Some (upd ord, upd ord # orders)
      else (case Order_findByIdAndUpdate orders i upd of
              None \<Rightarrow> None
            | Some (ord', orders') \<Rightarrow> Some (ord', ord # orders')))"

subsection \<open>createOrder\<close>

text \<open>
  The loop of \<^verbatim>\<open>createOrder\<close> over \<^verbatim>\<open>items\<close>. Each iteration awaits one
  \<^verbatim>\<open>Flower.findById\<close>, so the catalog may change between two lookups:
  \<open>flowersAt k\<close> is the flower collection as the \<open>k\<close>-th lookup of the request sees
  it. \<open>totalAmount'\<close> and \<open>orderItems\<close> are the loop's two accumulators. The first
  flower that is not found ends the handler with \<^verbatim>\<open>return next(error)\<close>.
\<close>

fun pricingLoop ::
  "(nat \<Rightarrow> 'n flowerDoc list) \<Rightarrow> nat \<Rightarrow> 'n itemReq list \<Rightarrow> 'n::{plus,times} \<Rightarrow> 'n orderItem list
     \<Rightarrow> error + ('n \<times> 'n orderItem list)" where
  "pricingLoop flowersAt k [] totalAmount' orderItems = Inr (totalAmount', orderItems)"
| "pricingLoop flowersAt k (item # rest) totalAmount' orderItems =
     (case Flower_findById (flowersAt k) (flower item) of
        None \<Rightarrow> Inl (FlowerNotFound (flower item))
      | Some fl \<Rightarrow>
          (let priceAtPurchase' = price fl;
               itemTotal = priceAtPurchase' * quantity item
           in pricingLoop flowersAt (Suc k) rest (totalAmount' + itemTotal)
                (orderItems @ [\<lparr>flower = flower_id fl, quantity = quantity item,
                                priceAtPurchase = priceAtPurchase'\<rparr>])))"

definition createOrder ::
  "('n order \<Rightarrow> bool) \<Rightarrow> (nat \<Rightarrow> 'n flowerDoc list) \<Rightarrow> nat \<Rightarrow> objectId
     \<Rightarrow> objectId \<Rightarrow> 'n::{zero,plus,times} itemReq list \<Rightarrow> string
     \<Rightarrow> 'n order list \<Rightarrow> (error + 'n order) \<times> 'n order list" where
  "createOrder valid flowersAt now newId user' items' shippingAddress' orders =
     (case pricingLoop flowersAt 0 items' 0 [] of
        Inl err \<Rightarrow> (Inl err, orders)
      | Inr (totalAmount', orderItems) \<Rightarrow>
          Order_save valid
            (newOrder now newId user' orderItems totalAmount' shippingAddress') orders)"

text \<open>The line totals of a list of line items: price times quantity, as the loop
  multiplies them. The loop adds them from left to right, starting from \<open>0\<close>:
  \<open>((0 + x\<^sub>1) + x\<^sub>2) + \<dots>\<close>, which is \<open>foldl (+) 0\<close> of the list.\<close>

definition lineTotals :: "'n::times orderItem list \<Rightarrow> 'n list" where
  "lineTotals orderItems = map (\<lambda>li. priceAtPurchase li * quantity li) orderItems"

subsection \<open>updateOrderStatus\<close>

text \<open>The status of the body is a string. A body without a status, or with a value of
  another type, fails the \<^verbatim>\<open>includes\<close> test as a string outside the list does.\<close>

definition validStatuses :: "string list" where
  "validStatuses = [''pending'', ''processing'', ''shipped'', ''delivered'', ''cancelled'']"

definition updateOrderStatus ::
  "nat \<Rightarrow> objectId \<Rightarrow> string \<Rightarrow> 'n order list \<Rightarrow> (error + 'n order) \<times> 'n order list" where
  "updateOrderStatus now i status' orders =
     (if status' \<notin> set validStatuses then (Inl InvalidStatus, orders)
      else (case Order_findByIdAndUpdate orders i
                   (\<lambda>ord. ord\<lparr>status := status', updatedAt := now\<rparr>) of
              None \<Rightarrow> (Inl (OrderNotFound i), orders)
            | Some (updatedOrder, orders') \<Rightarrow> (Inr updatedOrder, orders')))"

section \<open>Users: the user controller\<close>

subsection \<open>Values and documents\<close>

text \<open>
  The user controller reads and writes fields by name (\<^verbatim>\<open>Object.keys(req.body)\<close>,
  \<^verbatim>\<open>updates[key] = req.body[key]\<close>, \<^verbatim>\<open>user.role\<close>), so a request body and the fields
  of a stored user are dictionaries from field names to JavaScript values. A key that is
  absent reads as \<^verbatim>\<open>undefined\<close>, which is \<open>None\<close>. Only primitive values are modelled.
\<close>

datatype jsval = JNull | JBool bool | JNum int | JStr string

type_synonym fields = "string \<rightharpoonup> jsval"

text \<open>JavaScript's truthiness, as \<^verbatim>\<open>req.body.role && \<dots>\<close> tests it.\<close>

fun truthy :: "jsval option \<Rightarrow> bool" where
  "truthy None = False"
| "truthy (Some JNull) = False"
| "truthy (Some (JBool b)) = b"
| "truthy (Some (JNum n)) = (n \<noteq> 0)"
| "truthy (Some (JStr s)) = (s \<noteq> [])"

text \<open>A stored user: its \<^verbatim>\<open>_id\<close> (as \<^verbatim>\<open>user._id.toString()\<close> gives it) and its
  other fields.\<close>

record userDoc =
  user_id :: objectId
  attrs :: fields

text \<open>
  \<^verbatim>\<open>req.user\<close>, the session's user, as the controller reads it: \<^verbatim>\<open>id\<close>, \<^verbatim>\<open>role\<close>,
  \<^verbatim>\<open>displayName\<close> and the \<^verbatim>\<open>value\<close> of each entry of \<^verbatim>\<open>emails\<close>. An \<^verbatim>\<open>id\<close> that
  is missing is the empty string, which is falsy as \<^verbatim>\<open>undefined\<close> is; a \<^verbatim>\<open>role\<close>
  that is missing is any string other than \<open>admin\<close>. A request without a session has
  no \<^verbatim>\<open>req.user\<close>: \<open>None\<close>.
\<close>

record sessionUser =
  id' :: string
  role :: string
  displayName :: string
  emails :: "string list"

subsection \<open>The user collection\<close>

text \<open>
  The collection is the list of its documents. A query matches a stored value that is
  equal to it: Mongoose's casting of the values of a query is outside the model.
\<close>

definition User_findById :: "userDoc list \<Rightarrow> objectId \<Rightarrow> userDoc option" where
  "User_findById users i = find (\<lambda>u. user_id u = i) users"

definition User_findOne :: "userDoc list \<Rightarrow> string \<Rightarrow> jsval \<Rightarrow> userDoc option" where
  "User_findOne users key v = find (\<lambda>u. attrs u key = Some v) users"

definition User_countDocuments :: "userDoc list \<Rightarrow> string \<Rightarrow> jsval \<Rightarrow> nat" where
  "User_countDocuments users key v = length (filter (\<lambda>u. attrs u key = Some v) users)"

text \<open>
  \<^verbatim>\<open>new User(given).save()\<close> with the schema of \<^verbatim>\<open>models/User.js\<close>: the defaults
  \<^verbatim>\<open>isAdmin: false\<close>, \<^verbatim>\<open>createdAt: Date.now\<close> and \<^verbatim>\<open>updatedAt: Date.now\<close> fill the
  fields that are not given, and the \<^verbatim>\<open>pre('save')\<close> hook sets \<^verbatim>\<open>updatedAt\<close>.
  Whether the write goes through (the schema's validators, the unique indexes on
  \<^verbatim>\<open>email\<close>, \<^verbatim>\<open>githubId\<close> and \<^verbatim>\<open>googleId\<close>) is the parameter \<open>accepts\<close>, which
  sees the fields the controller supplies and the collection; a refused write raises
  out of \<^verbatim>\<open>save()\<close> and stores nothing.
\<close>

definition User_defaults :: "nat \<Rightarrow> fields" where
  "User_defaults now =
     [''isAdmin'' \<mapsto> JBool False, ''createdAt'' \<mapsto> JNum (int now),
      ''updatedAt'' \<mapsto> JNum (int now)]"

definition User_save ::
  "(fields \<Rightarrow> userDoc list \<Rightarrow> bool) \<Rightarrow> nat \<Rightarrow> objectId \<Rightarrow> fields \<Rightarrow> userDoc list
     \<Rightarrow> (error + unit) \<times> userDoc list" where
  "User_save accepts now newId given users =
     (if accepts given users
      then (Inr (),
            users @ [\<lparr>user_id = newId,
                      attrs = (User_defaults now ++ given)(''updatedAt'' \<mapsto> JNum (int now))\<rparr>])
      else (Inl (Thrown ''save rejected''), users))"

text \<open>
  The schema of \<^verbatim>\<open>models/User.js\<close> is strict. Its paths are the ones it declares and
  the version key that Mongoose adds; \<^verbatim>\<open>_id\<close> is held apart, in \<open>user_id\<close>. The schema
  declares neither \<^verbatim>\<open>role\<close> nor \<^verbatim>\<open>phoneNumber\<close> nor \<^verbatim>\<open>address\<close>.
\<close>

definition User_paths :: "string list" where
  "User_paths = [''googleId'', ''githubId'', ''email'', ''displayName'', ''profilePicture'',
                 ''isAdmin'', ''createdAt'', ''updatedAt'', ''__v'']"

text \<open>Reading a field of a loaded document, as in \<^verbatim>\<open>user.role\<close>: a field that the schema
  does not declare reads \<^verbatim>\<open>undefined\<close>, whatever the collection holds.\<close>

definition User_get :: "userDoc \<Rightarrow> string \<Rightarrow> jsval option" where
  "User_get usr path = (if path \<in> set User_paths then attrs usr path else None)"

text \<open>
  \<^verbatim>\<open>User.findByIdAndUpdate(id, updates, { new: true, runValidators: true })\<close>. The keys
  of \<open>updates\<close> are field names. A key that the schema does not declare is dropped. The
  value of a declared path is cast to the type of the path, goes through the setters of
  the path (\<^verbatim>\<open>trim\<close>, \<^verbatim>\<open>lowercase\<close>) and is checked by its validators and unique
  index: what comes out, the value to store or a refusal, is the parameter \<open>setter\<close>,
  which sees the collection, the id of the document, the path and the value. An
  \<^verbatim>\<open>_id\<close> other than the document's own is refused, \<^verbatim>\<open>_id\<close> being immutable. A
  refusal throws into the handler's \<^verbatim>\<open>catch\<close> and nothing is written. Otherwise the
  stored values overwrite the fields of the document with the id, and the updated
  document is returned; null when no document has the id.
\<close>

fun castUpdate :: "(string \<Rightarrow> jsval \<Rightarrow> jsval option) \<Rightarrow> string list \<Rightarrow> fields \<Rightarrow> fields option" where
  "castUpdate setPath [] updates = Some Map.empty"
| "castUpdate setPath (path # paths) updates =
     (case castUpdate setPath paths updates of
        None \<Rightarrow> None
      | Some stored \<Rightarrow>
          (case updates path of
             None \<Rightarrow> Some stored
           | Some v \<Rightarrow>
               (case setPath path v of
                  None \<Rightarrow> None
                | Some v' \<Rightarrow> Some (stored(path \<mapsto> v')))))"

fun User_updateOne ::
  "userDoc list \<Rightarrow> objectId \<Rightarrow> fields \<Rightarrow> userDoc option \<times> userDoc list" where
  "User_updateOne [] i stored = (None, [])"
| "User_updateOne (u # users) i stored =
     (if user_id u = i
      then (Some (u\<lparr>attrs := attrs u ++ stored\<rparr>), u\<lparr>attrs := attrs u ++ stored\<rparr> # users)
      else (case User_updateOne users i stored of
              (r, users') \<Rightarrow> (r, u # users')))"

definition User_findByIdAndUpdate ::
  "(userDoc list \<Rightarrow> objectId \<Rightarrow> string \<Rightarrow> jsval \<Rightarrow> jsval option)
     \<Rightarrow> userDoc list \<Rightarrow> objectId \<Rightarrow> fields \<Rightarrow> (error + userDoc option) \<times> userDoc list" where
  "User_findByIdAndUpdate setter users i updates =
     (if (case updates ''_id'' of None \<Rightarrow> False | Some v \<Rightarrow> v \<noteq> JStr i)
      then (Inl (Thrown ''update rejected''), users)
      else (case castUpdate (setter users i) User_paths updates of
              None \<Rightarrow> (Inl (Thrown ''update rejected''), users)
            | Some stored \<Rightarrow>
                (case User_updateOne users i stored of
                   (updated, users') \<Rightarrow> (Inr updated, users'))))"

text \<open>\<^verbatim>\<open>user.deleteOne()\<close>: the document with this \<^verbatim>\<open>_id\<close> leaves the collection.\<close>

definition User_deleteOne :: "userDoc \<Rightarrow> userDoc list \<Rightarrow> userDoc list" where
  "User_deleteOne usr users = filter (\<lambda>u. user_id u \<noteq> user_id usr) users"

subsection \<open>createUser\<close>

text \<open>
  \<^verbatim>\<open>const [email] = githubUser.emails\<close> followed by \<^verbatim>\<open>email.value\<close> throws a
  TypeError when there is no session user or no first email; the \<^verbatim>\<open>catch\<close> passes it to
  \<^verbatim>\<open>next\<close>. The handler sends no response of its own: its success payload is the unit.
\<close>

definition createUser ::
  "(fields \<Rightarrow> userDoc list \<Rightarrow> bool) \<Rightarrow> nat \<Rightarrow> objectId \<Rightarrow> sessionUser option \<Rightarrow> userDoc list
     \<Rightarrow> (error + unit) \<times> userDoc list" where
  "createUser accepts now newId reqUser users =
     (case reqUser of
        None \<Rightarrow> (Inl (Thrown ''TypeError''), users)
      | Some githubUser \<Rightarrow>
          (case emails githubUser of
             [] \<Rightarrow> (Inl (Thrown ''TypeError''), users)
           | email # _ \<Rightarrow>
               (case User_findOne users ''email'' (JStr email) of
                  Some existingUser \<Rightarrow> (Inr (), users)
                | None \<Rightarrow>
                    User_save accepts now newId
                      [''githubId'' \<mapsto> JStr (id' githubUser), ''email'' \<mapsto> JStr email,
                       ''displayName'' \<mapsto> JStr (displayName githubUser),
                       ''isAdmin'' \<mapsto> JBool False]
                      users)))"

subsection \<open>getUserById\<close>

definition getUserById :: "sessionUser option \<Rightarrow> string \<Rightarrow> userDoc list \<Rightarrow> error + userDoc" where
  "getUserById reqUser idParam users =
     (case (if idParam = ''me''
            then (case reqUser of
                    None \<Rightarrow> Inl NoSession
                  | Some ru \<Rightarrow>
                      if id' ru = [] then Inl NoSession
                      else Inr (User_findById users (id' ru)))
            else Inr (User_findById users idParam)) of
        Inl err \<Rightarrow> Inl err
      | Inr None \<Rightarrow> Inl UserNotFound
      | Inr (Some usr) \<Rightarrow>
          (case reqUser of
             None \<Rightarrow> Inr usr
           | Some ru \<Rightarrow>
               if role ru \<noteq> ''admin'' \<and> user_id usr \<noteq> id' ru then Inl NotAuthorizedView
               else Inr usr))"

subsection \<open>updateUser\<close>

definition allowedUpdates :: "string list" where
  "allowedUpdates = [''displayName'', ''profilePicture'', ''phoneNumber'', ''address'']"

text \<open>The \<open>updates\<close> object the handler builds from the body: the allowed keys for a
  non-admin, everything but \<^verbatim>\<open>googleId\<close> for an admin, and \<^verbatim>\<open>updatedAt\<close> on top.\<close>

definition buildUpdates :: "nat \<Rightarrow> sessionUser \<Rightarrow> fields \<Rightarrow> fields" where
  "buildUpdates now ru body =
     ((if role ru \<noteq> ''admin'' then body |` set allowedUpdates
       else body(''googleId'' := None))
      (''updatedAt'' \<mapsto> JNum (int now)))"

text \<open>
  The first statement of the handler reads \<^verbatim>\<open>req.user.id\<close> when the id parameter is
  \<open>me\<close>, before the session is checked: without a session it throws a TypeError.
  The role guard compares the body's role with \<^verbatim>\<open>user.role\<close>, a field of the loaded
  document. The payload of a success is what \<^verbatim>\<open>findByIdAndUpdate\<close> returned; what it
  throws goes to \<^verbatim>\<open>next\<close>.
\<close>

definition updateUser ::
  "(userDoc list \<Rightarrow> objectId \<Rightarrow> string \<Rightarrow> jsval \<Rightarrow> jsval option)
     \<Rightarrow> nat \<Rightarrow> sessionUser option \<Rightarrow> string \<Rightarrow> fields \<Rightarrow> userDoc list
     \<Rightarrow> (error + userDoc option) \<times> userDoc list" where
  "updateUser setter now reqUser idParam body users =
     (case reqUser of
        None \<Rightarrow>
          if idParam = ''me'' then (Inl (Thrown ''TypeError''), users)
          else (Inl NoSession, users)
      | Some ru \<Rightarrow>
          (let targetId = (if idParam = ''me'' then id' ru else idParam) in
           if id' ru = [] then (Inl NoSession, users)
           else (case User_findById users targetId of
                   None \<Rightarrow> (Inl UserNotFound, users)
                 | Some usr \<Rightarrow>
                     if role ru \<noteq> ''admin'' \<and> user_id usr \<noteq> id' ru
                     then (Inl NotAuthorizedUpdate, users)
                     else if truthy (body ''role'') \<and> role ru \<noteq> ''admin''
                               \<and> body ''role'' \<noteq> User_get usr ''role''
                     then (Inl NotAuthorizedRole, users)
                     else User_findByIdAndUpdate setter users targetId
                            (buildUpdates now ru body))))"

subsection \<open>deleteUser\<close>

text \<open>The handler reads \<^verbatim>\<open>req.user.id\<close> after the target was found; without a session
  that read throws.\<close>

definition deleteUser ::
  "sessionUser option \<Rightarrow> string \<Rightarrow> userDoc list \<Rightarrow> (error + unit) \<times> userDoc list" where
  "deleteUser reqUser idParam users =
     (case User_findById users idParam of
        None \<Rightarrow> (Inl UserNotFound, users)
      | Some usr \<Rightarrow>
          (case reqUser of
             None \<Rightarrow> (Inl (Thrown ''TypeError''), users)
           | Some ru \<Rightarrow>
               if user_id usr = id' ru \<and> role ru = ''admin''
                    \<and> User_countDocuments users ''role'' (JStr ''admin'') \<le> 1
               then (Inl LastAdmin, users)
               else (Inr (), User_deleteOne usr users)))"

subsection \<open>Example documents\<close>

text \<open>An order of two flowers \<open>p1\<close> at 10 each, for the concrete instances below.\<close>

definition order1 :: "int order" where
  "order1 = \<lparr>order_id = ''o1'', user = ''u1'',
              items = [\<lparr>flower = ''p1'', quantity = 2, priceAtPurchase = 10\<rparr>],
              totalAmount = 20, shippingAddress = ''addr'', status = ''pending'',
              createdAt = 7, updatedAt = 7\<rparr>"

text \<open>Two session users and three stored accounts: Ann is a customer, Bob and Carol are
  admins.\<close>

definition ann :: sessionUser where
  "ann = \<lparr>id' = ''u1'', role = ''customer'', displayName = ''Ann'',
          emails = [''ann@example.com'']\<rparr>"

definition bob :: sessionUser where
  "bob = \<lparr>id' = ''u2'', role = ''admin'', displayName = ''Bob'',
          emails = [''bob@example.com'']\<rparr>"

definition annDoc :: userDoc where
  "annDoc = \<lparr>user_id = ''u1'',
             attrs = [''email'' \<mapsto> JStr ''ann@example.com'', ''role'' \<mapsto> JStr ''customer'']\<rparr>"

definition bobDoc :: userDoc where
  "bobDoc = \<lparr>user_id = ''u2'',
             attrs = [''email'' \<mapsto> JStr ''bob@example.com'', ''role'' \<mapsto> JStr ''admin'']\<rparr>"

definition carolDoc :: userDoc where
  "carolDoc = \<lparr>user_id = ''u3'',
               attrs = [''email'' \<mapsto> JStr ''carol@example.com'', ''role'' \<mapsto> JStr ''admin'']\<rparr>"

text \<open>An example of a setter, for the concrete instances below. As \<^verbatim>\<open>trim: true\<close> does
  in \<^verbatim>\<open>models/User.js\<close>, it strips the spaces around a string written to
  \<^verbatim>\<open>displayName\<close>, \<^verbatim>\<open>profilePicture\<close> or \<^verbatim>\<open>email\<close>; as \<^verbatim>\<open>required: true\<close> does, it
  refuses null for \<^verbatim>\<open>email\<close>; every other value it stores as it is sent.\<close>

definition trimSpaces :: "string \<Rightarrow> string" where
  "trimSpaces s =
     rev (dropWhile (\<lambda>c. c = CHR '' '') (rev (dropWhile (\<lambda>c. c = CHR '' '') s)))"

definition trimSetter :: "userDoc list \<Rightarrow> objectId \<Rightarrow> string \<Rightarrow> jsval \<Rightarrow> jsval option" where
  "trimSetter users i path v =
     (if path = ''email'' \<and> v = JNull then None
      else (case v of
              JStr s \<Rightarrow>
                if path \<in> set [''displayName'', ''profilePicture'', ''email'']
                then Some (JStr (trimSpaces s)) else Some v
            | _ \<Rightarrow> Some v))"

section \<open>Properties of order creation\<close>

text \<open>When every lookup of the loop finds its flower, the loop returns one line item per
  entry, in the order of the entries, each with the price that its own lookup read, and
  the total it returns is the left-to-right sum of the line totals.\<close>

lemma pricingLoop_resolved:
  "\<forall>i<length its. Flower_findById (flowersAt (k + i)) (flower (its ! i)) \<noteq> None \<Longrightarrow>
   \<exists>lis. pricingLoop flowersAt k its t acc = Inr (foldl (+) t (lineTotals lis), acc @ lis)
     \<and> length lis = length its
     \<and> (\<forall>i<length its. flower (lis ! i) = flower (its ! i)
            \<and> quantity (lis ! i) = quantity (its ! i)
            \<and> map_option price (Flower_findById (flowersAt (k + i)) (flower (its ! i)))
                = Some (priceAtPurchase (lis ! i)))"
proof (induction its arbitrary: k t acc)
  case Nil
  show ?case by (simp add: lineTotals_def)
next
  case (Cons item rest)
  from Cons.prems have "Flower_findById (flowersAt k) (flower item) \<noteq> None"
    by fastforce
  then obtain fl where fl: "Flower_findById (flowersAt k) (flower item) = Some fl"
    by blast
  then have fid: "flower_id fl = flower item"
    by (auto simp: Flower_findById_def find_Some_iff)
  have "\<forall>i<length rest. Flower_findById (flowersAt (Suc k + i)) (flower (rest ! i)) \<noteq> None"
    using Cons.prems by fastforce
  from Cons.IH[OF this] obtain lis where
    run: "pricingLoop flowersAt (Suc k) rest (t + price fl * quantity item)
            (acc @ [\<lparr>flower = flower_id fl, quantity = quantity item, priceAtPurchase = price fl\<rparr>])
          = Inr (foldl (+) (t + price fl * quantity item) (lineTotals lis),
                 (acc @ [\<lparr>flower = flower_id fl, quantity = quantity item, priceAtPurchase = price fl\<rparr>]) @ lis)"
    and len: "length lis = length rest"
    and each: "\<forall>i<length rest. flower (lis ! i) = flower (rest ! i)
            \<and> quantity (lis ! i) = quantity (rest ! i)
            \<and> map_option price (Flower_findById (flowersAt (Suc k + i)) (flower (rest ! i)))
                = Some (priceAtPurchase (lis ! i))"
    by blast
  let ?li = "\<lparr>flower = flower_id fl, quantity = quantity item, priceAtPurchase = price fl\<rparr>"
  have "pricingLoop flowersAt k (item # rest) t acc
          = Inr (foldl (+) t (lineTotals (?li # lis)), acc @ (?li # lis))"
    using fl run by (simp add: lineTotals_def Let_def)
  moreover have "length (?li # lis) = length (item # rest)" using len by simp
  moreover have "\<forall>i<length (item # rest). flower ((?li # lis) ! i) = flower ((item # rest) ! i)
            \<and> quantity ((?li # lis) ! i) = quantity ((item # rest) ! i)
            \<and> map_option price (Flower_findById (flowersAt (k + i)) (flower ((item # rest) ! i)))
                = Some (priceAtPurchase ((?li # lis) ! i))"
  proof (intro allI impI)
    fix i assume "i < length (item # rest)"
    show "flower ((?li # lis) ! i) = flower ((item # rest) ! i)
            \<and> quantity ((?li # lis) ! i) = quantity ((item # rest) ! i)
            \<and> map_option price (Flower_findById (flowersAt (k + i)) (flower ((item # rest) ! i)))
                = Some (priceAtPurchase ((?li # lis) ! i))"
    proof (cases i)
      case 0
      then show ?thesis using fl fid by simp
    next
      case (Suc m)
      then have "m < length rest" using \<open>i < length (item # rest)\<close> by simp
      with each Suc show ?thesis by simp
    qed
  qed
  ultimately show ?case by blast
qed

text \<open>The loop stops at the first entry whose flower is not found.\<close>

lemma pricingLoop_first_missing:
  "j < length its \<Longrightarrow> Flower_findById (flowersAt (k + j)) (flower (its ! j)) = None \<Longrightarrow>
   \<forall>i<j. Flower_findById (flowersAt (k + i)) (flower (its ! i)) \<noteq> None \<Longrightarrow>
   pricingLoop flowersAt k its t acc = Inl (FlowerNotFound (flower (its ! j)))"
proof (induction its arbitrary: k j t acc)
  case Nil
  then show ?case by simp
next
  case (Cons item rest)
  show ?case
  proof (cases j)
    case 0
    with Cons.prems show ?thesis by simp
  next
    case (Suc m)
    with Cons.prems have m: "m < length rest"
      and miss: "Flower_findById (flowersAt (Suc k + m)) (flower (rest ! m)) = None"
      by simp_all
    have before: "\<forall>i<m. Flower_findById (flowersAt (Suc k + i)) (flower (rest ! i)) \<noteq> None"
    proof (intro allI impI)
      fix i assume "i < m"
      then have "Suc i < j" using Suc by simp
      with Cons.prems(3) have "Flower_findById (flowersAt (k + Suc i)) (flower ((item # rest) ! Suc i)) \<noteq> None"
        by blast
      then show "Flower_findById (flowersAt (Suc k + i)) (flower (rest ! i)) \<noteq> None" by simp
    qed
    from Cons.prems(3) Suc have "Flower_findById (flowersAt (k + 0)) (flower ((item # rest) ! 0)) \<noteq> None"
      by blast
    then obtain fl where "Flower_findById (flowersAt k) (flower item) = Some fl" by auto
    then show ?thesis
      using Cons.IH[OF m miss before] Suc by (simp add: Let_def)
  qed
qed

text \<open>In exact arithmetic the sum from left to right is the sum of the list.\<close>

lemma foldl_plus_sum_list: "foldl (+) a xs = a + sum_list xs" for a :: "'a::monoid_add"
  by (induction xs arbitrary: a) (simp_all add: add.assoc)

text \<open>
  Claim C1. For every item list in which every referenced flower is found when it is
  looked up, \<^verbatim>\<open>createOrder\<close> builds one order document and hands it to \<^verbatim>\<open>save\<close>: the
  order is stored and returned when the Order model accepts it. Its line items follow
  the entries in order, each with the entry's flower and quantity and with
  \<^verbatim>\<open>priceAtPurchase\<close> equal to the price that the entry's own lookup read (a later
  change of the catalog does not reach it), and its \<^verbatim>\<open>totalAmount\<close> is the sum, from
  left to right, of price times quantity over its line items.
\<close>

theorem createOrder_snapshot_and_total:
  fixes items' :: "'n::{zero,plus,times} itemReq list"
  assumes "\<forall>i<length items'. Flower_findById (flowersAt i) (flower (items' ! i)) \<noteq> None"
  shows "\<exists>ord. createOrder valid flowersAt now newId user' items' shippingAddress' orders
                 = (if valid ord then (Inr ord, orders @ [ord])
                    else (Inl (Thrown ''ValidationError''), orders))
          \<and> length (items ord) = length items'
          \<and> (\<forall>i<length items'.
                 flower (items ord ! i) = flower (items' ! i)
               \<and> quantity (items ord ! i) = quantity (items' ! i)
               \<and> map_option price (Flower_findById (flowersAt i) (flower (items' ! i)))
                   = Some (priceAtPurchase (items ord ! i)))
          \<and> totalAmount ord = foldl (+) 0 (lineTotals (items ord))"
proof -
  from assms have "\<forall>i<length items'. Flower_findById (flowersAt (0 + i)) (flower (items' ! i)) \<noteq> None"
    by simp
  from pricingLoop_resolved[OF this, of 0 "[]"] obtain lis where
    run: "pricingLoop flowersAt 0 items' 0 [] = Inr (foldl (+) 0 (lineTotals lis), lis)"
    and len: "length lis = length items'"
    and each: "\<forall>i<length items'. flower (lis ! i) = flower (items' ! i)
            \<and> quantity (lis ! i) = quantity (items' ! i)
            \<and> map_option price (Flower_findById (flowersAt i) (flower (items' ! i)))
                = Some (priceAtPurchase (lis ! i))"
    by auto
  let ?ord = "newOrder now newId user' lis (foldl (+) 0 (lineTotals lis)) shippingAddress'"
  have "createOrder valid flowersAt now newId user' items' shippingAddress' orders
          = (if valid ?ord then (Inr ?ord, orders @ [?ord])
             else (Inl (Thrown ''ValidationError''), orders))"
    using run by (simp add: createOrder_def Order_save_def)
  moreover have "items ?ord = lis" "totalAmount ?ord = foldl (+) 0 (lineTotals lis)"
    by (simp_all add: newOrder_def)
  ultimately show ?thesis using len each by metis
qed

theorem createOrder_snapshot_and_total_witness:
  "Flower_findById [\<lparr>flower_id = ''p1'', price = 10::int\<rparr>] ''p1'' \<noteq> None
   \<and> createOrder (\<lambda>_. True)
        (\<lambda>k. [\<lparr>flower_id = ''p1'', price = if k = 0 then 10 else 99\<rparr>])
        7 ''o1'' ''u1'' [\<lparr>flower = ''p1'', quantity = 2\<rparr>] ''addr'' []
       = (Inr order1, [order1])"
proof -
  let ?cat = "\<lambda>k::nat. [\<lparr>flower_id = ''p1'', price = if k = 0 then 10 else (99::int)\<rparr>]"
  let ?its = "[\<lparr>flower = ''p1'', quantity = 2::int\<rparr>]"
  have h: "\<forall>i<length ?its. Flower_findById (?cat i) (flower (?its ! i)) \<noteq> None"
    by (simp add: Flower_findById_def)
  from createOrder_snapshot_and_total[OF h, of "\<lambda>_. True" 7 "''o1''" "''u1''" "''addr''" "[]"]
  obtain ord where
    "createOrder (\<lambda>_. True) ?cat 7 ''o1'' ''u1'' ?its ''addr'' [] = (Inr ord, [ord])"
    by auto
  moreover from this have "ord = order1"
    by (simp add: createOrder_def Order_save_def Flower_findById_def newOrder_def order1_def)
  ultimately show ?thesis
    by (simp add: Flower_findById_def)
qed

text \<open>
  Claim C3. For every item list with an entry whose flower is not found, \<^verbatim>\<open>createOrder\<close>
  fails with the flower-not-found error (status 400) that names the first such entry's
  flower, and the order collection is unchanged.
\<close>

theorem createOrder_unknown_flower:
  fixes items' :: "'n::{zero,plus,times} itemReq list"
  assumes "\<exists>i<length items'. Flower_findById (flowersAt i) (flower (items' ! i)) = None"
  shows "\<exists>j<length items'.
            Flower_findById (flowersAt j) (flower (items' ! j)) = None
          \<and> (\<forall>i<j. Flower_findById (flowersAt i) (flower (items' ! i)) \<noteq> None)
          \<and> createOrder valid flowersAt now newId user' items' shippingAddress' orders
              = (Inl (FlowerNotFound (flower (items' ! j))), orders)"
proof -
  define missing where
    "missing i \<longleftrightarrow> i < length items' \<and> Flower_findById (flowersAt i) (flower (items' ! i)) = None"
    for i
  define j where "j = (LEAST i. missing i)"
  from assms have ex: "\<exists>i. missing i" by (auto simp: missing_def)
  then have mj: "missing j" unfolding j_def by (rule LeastI_ex)
  have least: "\<not> missing i" if "i < j" for i
    using that unfolding j_def by (rule not_less_Least)
  from mj have jlen: "j < length items'"
    and jnone: "Flower_findById (flowersAt (0 + j)) (flower (items' ! j)) = None"
    by (simp_all add: missing_def)
  have before: "\<forall>i<j. Flower_findById (flowersAt (0 + i)) (flower (items' ! i)) \<noteq> None"
    using least jlen by (auto simp: missing_def)
  have "pricingLoop flowersAt 0 items' 0 [] = Inl (FlowerNotFound (flower (items' ! j)))"
    by (rule pricingLoop_first_missing[OF jlen jnone before])
  then have "createOrder valid flowersAt now newId user' items' shippingAddress' orders
               = (Inl (FlowerNotFound (flower (items' ! j))), orders)"
    by (simp add: createOrder_def)
  with jlen jnone before show ?thesis by auto
qed

theorem createOrder_unknown_flower_witness:
  "Flower_findById [\<lparr>flower_id = ''p1'', price = 10::int\<rparr>] ''p2'' = None
   \<and> createOrder (\<lambda>_. True) (\<lambda>_. [\<lparr>flower_id = ''p1'', price = 10::int\<rparr>]) 7 ''o2'' ''u1''
        [\<lparr>flower = ''p1'', quantity = 1\<rparr>, \<lparr>flower = ''p2'', quantity = 3\<rparr>,
         \<lparr>flower = ''p3'', quantity = 1\<rparr>] ''addr'' []
       = (Inl (FlowerNotFound ''p2''), [])"
proof -
  let ?cat = "\<lambda>k::nat. [\<lparr>flower_id = ''p1'', price = 10::int\<rparr>]"
  let ?its = "[\<lparr>flower = ''p1'', quantity = 1::int\<rparr>, \<lparr>flower = ''p2'', quantity = 3\<rparr>,
               \<lparr>flower = ''p3'', quantity = 1\<rparr>]"
  have h: "\<exists>i<length ?its. Flower_findById (?cat i) (flower (?its ! i)) = None"
    by (rule exI[of _ 1]) (simp add: Flower_findById_def)
  from createOrder_unknown_flower[OF h, of "\<lambda>_. True" 7 "''o2''" "''u1''" "''addr''" "[]"]
  obtain j where j: "j < length ?its"
    and first: "\<forall>i<j. Flower_findById (?cat i) (flower (?its ! i)) \<noteq> None"
    and none: "Flower_findById (?cat j) (flower (?its ! j)) = None"
    and res: "createOrder (\<lambda>_. True) ?cat 7 ''o2'' ''u1'' ?its ''addr'' []
                = (Inl (FlowerNotFound (flower (?its ! j))), [])"
    by blast
  have "j = 1"
  proof (rule ccontr)
    assume "j \<noteq> 1"
    with j have "j = 0 \<or> j = 2" by auto
    then show False
    proof
      assume "j = 0" with none show False by (simp add: Flower_findById_def)
    next
      assume "j = 2"
      with first[rule_format, of 1] show False by (simp add: Flower_findById_def)
    qed
  qed
  with res show ?thesis by (simp add: Flower_findById_def)
qed

text \<open>
  Claim C4, as stated: an item list with an entry of quantity at most zero makes the
  pricing fail and no order is created. It is false: the loop has no check of the
  quantity. With an entry of quantity \<open>-2\<close> the loop succeeds with a total of \<open>-20\<close>,
  and with an Order model that accepts the document the order is stored.
\<close>

theorem createOrder_invalid_quantity_counterexample:
  "quantity \<lparr>flower = ''p1'', quantity = - 2 :: int\<rparr> \<le> 0
   \<and> pricingLoop (\<lambda>_. [\<lparr>flower_id = ''p1'', price = 10::int\<rparr>]) 0
        [\<lparr>flower = ''p1'', quantity = - 2\<rparr>] 0 []
       = Inr (- 20, [\<lparr>flower = ''p1'', quantity = - 2, priceAtPurchase = 10\<rparr>])
   \<and> createOrder (\<lambda>_. True) (\<lambda>_. [\<lparr>flower_id = ''p1'', price = 10::int\<rparr>]) 7 ''o3'' ''u1''
        [\<lparr>flower = ''p1'', quantity = - 2\<rparr>] ''addr'' []
       = (Inr \<lparr>order_id = ''o3'', user = ''u1'',
               items = [\<lparr>flower = ''p1'', quantity = - 2, priceAtPurchase = 10\<rparr>],
               totalAmount = - 20, shippingAddress = ''addr'', status = ''pending'',
               createdAt = 7, updatedAt = 7\<rparr>,
          [\<lparr>order_id = ''o3'', user = ''u1'',
            items = [\<lparr>flower = ''p1'', quantity = - 2, priceAtPurchase = 10\<rparr>],
            totalAmount = - 20, shippingAddress = ''addr'', status = ''pending'',
            createdAt = 7, updatedAt = 7\<rparr>])"
  by (simp add: createOrder_def Order_save_def newOrder_def Flower_findById_def)

text \<open>
  Claim C4, amended. \<^verbatim>\<open>createOrder\<close> checks no quantity and has no failure for one:
  when every flower is found, an entry of quantity at most zero is priced as any other.
  Its line item carries the entry's flower, the quantity as supplied and the price that
  its lookup read; its line total is that price times the quantity; and the
  \<^verbatim>\<open>totalAmount\<close> of the order is the sum, from left to right, of the line totals, this
  one among them. The document is handed to \<^verbatim>\<open>save\<close>: the order is stored and returned
  when the Order model accepts it; when the model refuses it, the validation error of
  \<^verbatim>\<open>save\<close> is passed on and nothing is stored.
\<close>

theorem createOrder_no_quantity_check:
  fixes items' :: "'n::{zero,plus,times,ord} itemReq list"
  assumes "\<forall>i<length items'. Flower_findById (flowersAt i) (flower (items' ! i)) \<noteq> None"
    and "j < length items'" and "quantity (items' ! j) \<le> 0"
  shows "\<exists>ord. createOrder valid flowersAt now newId user' items' shippingAddress' orders
                 = (if valid ord then (Inr ord, orders @ [ord])
                    else (Inl (Thrown ''ValidationError''), orders))
          \<and> length (items ord) = length items'
          \<and> (\<forall>i<length items'.
                 flower (items ord ! i) = flower (items' ! i)
               \<and> quantity (items ord ! i) = quantity (items' ! i)
               \<and> map_option price (Flower_findById (flowersAt i) (flower (items' ! i)))
                   = Some (priceAtPurchase (items ord ! i)))
          \<and> quantity (items ord ! j) \<le> 0
          \<and> lineTotals (items ord) ! j = priceAtPurchase (items ord ! j) * quantity (items' ! j)
          \<and> totalAmount ord = foldl (+) 0 (lineTotals (items ord))"
proof -
  from assms(1) have "\<forall>i<length items'. Flower_findById (flowersAt (0 + i)) (flower (items' ! i)) \<noteq> None"
    by simp
  from pricingLoop_resolved[OF this, of 0 "[]"] obtain lis where
    run: "pricingLoop flowersAt 0 items' 0 [] = Inr (foldl (+) 0 (lineTotals lis), lis)"
    and len: "length lis = length items'"
    and each: "\<forall>i<length items'. flower (lis ! i) = flower (items' ! i)
            \<and> quantity (lis ! i) = quantity (items' ! i)
            \<and> map_option price (Flower_findById (flowersAt i) (flower (items' ! i)))
                = Some (priceAtPurchase (lis ! i))"
    by auto
  let ?ord = "newOrder now newId user' lis (foldl (+) 0 (lineTotals lis)) shippingAddress'"
  have res: "createOrder valid flowersAt now newId user' items' shippingAddress' orders
          = (if valid ?ord then (Inr ?ord, orders @ [?ord])
             else (Inl (Thrown ''ValidationError''), orders))"
    using run by (simp add: createOrder_def Order_save_def)
  have its: "items ?ord = lis" and tot: "totalAmount ?ord = foldl (+) 0 (lineTotals lis)"
    by (simp_all add: newOrder_def)
  from each assms(2) have qj: "quantity (lis ! j) = quantity (items' ! j)" by simp
  with assms(3) have neg: "quantity (lis ! j) \<le> 0" by simp
  from assms(2) len have "lineTotals lis ! j = priceAtPurchase (lis ! j) * quantity (lis ! j)"
    by (simp add: lineTotals_def)
  with qj have line: "lineTotals lis ! j = priceAtPurchase (lis ! j) * quantity (items' ! j)"
    by simp
  show ?thesis
  proof (intro exI[of _ ?ord] conjI)
    show "createOrder valid flowersAt now newId user' items' shippingAddress' orders
          = (if valid ?ord then (Inr ?ord, orders @ [?ord])
             else (Inl (Thrown ''ValidationError''), orders))" by (rule res)
    show "length (items ?ord) = length items'" using len by (simp only: its)
    show "\<forall>i<length items'.
                 flower (items ?ord ! i) = flower (items' ! i)
               \<and> quantity (items ?ord ! i) = quantity (items' ! i)
               \<and> map_option price (Flower_findById (flowersAt i) (flower (items' ! i)))
                   = Some (priceAtPurchase (items ?ord ! i))" using each by (simp only: its)
    show "quantity (items ?ord ! j) \<le> 0" using neg by (simp only: its)
    show "lineTotals (items ?ord) ! j = priceAtPurchase (items ?ord ! j) * quantity (items' ! j)"
      using line by (simp only: its)
    show "totalAmount ?ord = foldl (+) 0 (lineTotals (items ?ord))" using tot by (simp only: its)
  qed
qed

theorem createOrder_no_quantity_check_witness:
  "Flower_findById [\<lparr>flower_id = ''p1'', price = 10::int\<rparr>] ''p1'' \<noteq> None
   \<and> quantity \<lparr>flower = ''p1'', quantity = - 1 :: int\<rparr> \<le> 0
   \<and> createOrder (\<lambda>_. True) (\<lambda>_. [\<lparr>flower_id = ''p1'', price = 10::int\<rparr>]) 7 ''o4'' ''u1''
        [\<lparr>flower = ''p1'', quantity = 3\<rparr>, \<lparr>flower = ''p1'', quantity = - 1\<rparr>] ''addr'' []
       = (Inr \<lparr>order_id = ''o4'', user = ''u1'',
               items = [\<lparr>flower = ''p1'', quantity = 3, priceAtPurchase = 10\<rparr>,
                        \<lparr>flower = ''p1'', quantity = - 1, priceAtPurchase = 10\<rparr>],
               totalAmount = 20, shippingAddress = ''addr'', status = ''pending'',
               createdAt = 7, updatedAt = 7\<rparr>,
          [\<lparr>order_id = ''o4'', user = ''u1'',
            items = [\<lparr>flower = ''p1'', quantity = 3, priceAtPurchase = 10\<rparr>,
                     \<lparr>flower = ''p1'', quantity = - 1, priceAtPurchase = 10\<rparr>],
            totalAmount = 20, shippingAddress = ''addr'', status = ''pending'',
            createdAt = 7, updatedAt = 7\<rparr>])
   \<and> createOrder (\<lambda>ord. list_all (\<lambda>li. 1 \<le> quantity li) (items ord))
        (\<lambda>_. [\<lparr>flower_id = ''p1'', price = 10::int\<rparr>]) 7 ''o4'' ''u1''
        [\<lparr>flower = ''p1'', quantity = 3\<rparr>, \<lparr>flower = ''p1'', quantity = - 1\<rparr>] ''addr'' []
       = (Inl (Thrown ''ValidationError''), [])"
proof -
  let ?cat = "\<lambda>k::nat. [\<lparr>flower_id = ''p1'', price = 10::int\<rparr>]"
  let ?its = "[\<lparr>flower = ''p1'', quantity = 3::int\<rparr>, \<lparr>flower = ''p1'', quantity = - 1\<rparr>]"
  let ?valid = "\<lambda>ord::int order. list_all (\<lambda>li. 1 \<le> quantity li) (items ord)"
  have h: "\<forall>i<length ?its. Flower_findById (?cat i) (flower (?its ! i)) \<noteq> None"
    by (simp add: Flower_findById_def less_Suc_eq)
  have j: "1 < length ?its" and q: "quantity (?its ! 1) \<le> 0" by simp_all
  from createOrder_no_quantity_check[OF h j q, of "\<lambda>_. True" 7 "''o4''" "''u1''" "''addr''" "[]"]
  obtain ord where
    all: "createOrder (\<lambda>_. True) ?cat 7 ''o4'' ''u1'' ?its ''addr'' [] = (Inr ord, [ord])"
    by auto
  from all have ord: "ord = \<lparr>order_id = ''o4'', user = ''u1'',
               items = [\<lparr>flower = ''p1'', quantity = 3, priceAtPurchase = 10\<rparr>,
                        \<lparr>flower = ''p1'', quantity = - 1, priceAtPurchase = 10\<rparr>],
               totalAmount = 20, shippingAddress = ''addr'', status = ''pending'',
               createdAt = 7, updatedAt = 7\<rparr>"
    by (simp add: createOrder_def Order_save_def Flower_findById_def newOrder_def)
  from createOrder_no_quantity_check[OF h j q, of ?valid 7 "''o4''" "''u1''" "''addr''" "[]"]
  obtain ord' where
    res: "createOrder ?valid ?cat 7 ''o4'' ''u1'' ?its ''addr'' []
            = (if ?valid ord' then (Inr ord', [] @ [ord'])
               else (Inl (Thrown ''ValidationError''), []))"
    and len': "length (items ord') = length ?its"
    and qty: "quantity (items ord' ! 1) \<le> 0"
    by blast
  from len' qty have "\<not> ?valid ord'"
    by (cases "items ord'"; cases "tl (items ord')") auto
  with res have strict: "createOrder ?valid ?cat 7 ''o4'' ''u1'' ?its ''addr'' []
                           = (Inl (Thrown ''ValidationError''), [])" by simp
  from all ord strict show ?thesis by (simp add: Flower_findById_def)
qed

section \<open>Properties of the status update\<close>

text \<open>An update by id of a stored order returns the updated order, stores it under the
  same id, and leaves every other id and the size of the collection as they were.\<close>

lemma Order_findByIdAndUpdate_found:
  "Order_findById orders i = Some ord \<Longrightarrow> order_id (upd ord) = i \<Longrightarrow>
   \<exists>orders'. Order_findByIdAndUpdate orders i upd = Some (upd ord, orders')
     \<and> Order_findById orders' i = Some (upd ord)
     \<and> (\<forall>j. j \<noteq> i \<longrightarrow> Order_findById orders' j = Order_findById orders j)
     \<and> length orders' = length orders"
proof (induction orders)
  case Nil
  then show ?case by (simp add: Order_findById_def)
next
  case (Cons a orders)
  show ?case
  proof (cases "order_id a = i")
    case True
    with Cons.prems have "a = ord" by (simp add: Order_findById_def)
    with True Cons.prems show ?thesis by (auto simp: Order_findById_def)
  next
    case False
    with Cons.prems have "Order_findById orders i = Some ord" by (simp add: Order_findById_def)
    from Cons.IH[OF this Cons.prems(2)] obtain orders' where
      "Order_findByIdAndUpdate orders i upd = Some (upd ord, orders')"
      "Order_findById orders' i = Some (upd ord)"
      "\<forall>j. j \<noteq> i \<longrightarrow> Order_findById orders' j = Order_findById orders j"
      "length orders' = length orders" by blast
    with False show ?thesis by (auto simp: Order_findById_def)
  qed
qed

text \<open>
  Claim C5. For every stored order and every status \<open>s\<close>: when \<open>s\<close> is one of pending,
  processing, shipped, delivered and cancelled, \<^verbatim>\<open>updateOrderStatus\<close> succeeds, and the
  order it returns and stores differs from the stored one in \<^verbatim>\<open>status\<close> and
  \<^verbatim>\<open>updatedAt\<close> only: owner, items, total amount and shipping address are unchanged, as
  is every other order. When \<open>s\<close> is any other string, it fails with the invalid-status
  answer (status 400) and the collection is unchanged.
\<close>

theorem updateOrderStatus_frame:
  assumes "Order_findById orders i = Some ord"
  shows "(s \<in> set validStatuses \<longrightarrow>
            (\<exists>ord' orders'.
                updateOrderStatus now i s orders = (Inr ord', orders')
              \<and> ord' = ord\<lparr>status := s, updatedAt := now\<rparr>
              \<and> status ord' = s \<and> updatedAt ord' = now
              \<and> user ord' = user ord \<and> items ord' = items ord
              \<and> totalAmount ord' = totalAmount ord
              \<and> shippingAddress ord' = shippingAddress ord
              \<and> order_id ord' = order_id ord \<and> createdAt ord' = createdAt ord
              \<and> Order_findById orders' i = Some ord'
              \<and> (\<forall>j. j \<noteq> i \<longrightarrow> Order_findById orders' j = Order_findById orders j)
              \<and> length orders' = length orders))
       \<and> (s \<notin> set validStatuses \<longrightarrow>
            updateOrderStatus now i s orders = (Inl InvalidStatus, orders))"
proof (intro conjI impI)
  assume valid: "s \<in> set validStatuses"
  let ?upd = "\<lambda>ord::'a order. ord\<lparr>status := s, updatedAt := now\<rparr>"
  from assms have "order_id ord = i"
    by (auto simp: Order_findById_def find_Some_iff)
  then have "order_id (?upd ord) = i" by simp
  from Order_findByIdAndUpdate_found[where upd = ?upd, OF assms this] obtain orders' where
    upd: "Order_findByIdAndUpdate orders i ?upd = Some (?upd ord, orders')"
    and rest: "Order_findById orders' i = Some (?upd ord)"
      "\<forall>j. j \<noteq> i \<longrightarrow> Order_findById orders' j = Order_findById orders j"
      "length orders' = length orders"
    by blast
  from valid upd have "updateOrderStatus now i s orders = (Inr (?upd ord), orders')"
    by (simp add: updateOrderStatus_def)
  with rest show "\<exists>ord' orders'.
                updateOrderStatus now i s orders = (Inr ord', orders')
              \<and> ord' = ord\<lparr>status := s, updatedAt := now\<rparr>
              \<and> status ord' = s \<and> updatedAt ord' = now
              \<and> user ord' = user ord \<and> items ord' = items ord
              \<and> totalAmount ord' = totalAmount ord
              \<and> shippingAddress ord' = shippingAddress ord
              \<and> order_id ord' = order_id ord \<and> createdAt ord' = createdAt ord
              \<and> Order_findById orders' i = Some ord'
              \<and> (\<forall>j. j \<noteq> i \<longrightarrow> Order_findById orders' j = Order_findById orders j)
              \<and> length orders' = length orders"
    by simp
next
  assume "s \<notin> set validStatuses"
  then show "updateOrderStatus now i s orders = (Inl InvalidStatus, orders)"
    by (simp add: updateOrderStatus_def)
qed

theorem updateOrderStatus_frame_witness:
  "Order_findById [order1] ''o1'' = Some order1
   \<and> ''shipped'' \<in> set validStatuses
   \<and> updateOrderStatus 9 ''o1'' ''shipped'' [order1]
       = (Inr (order1\<lparr>status := ''shipped'', updatedAt := 9\<rparr>),
          [order1\<lparr>status := ''shipped'', updatedAt := 9\<rparr>])
   \<and> ''refunded'' \<notin> set validStatuses
   \<and> updateOrderStatus 9 ''o1'' ''refunded'' [order1] = (Inl InvalidStatus, [order1])"
proof -
  have h: "Order_findById [order1] ''o1'' = Some order1"
    by (simp add: Order_findById_def order1_def)
  have ok: "''shipped'' \<in> set validStatuses" and bad: "''refunded'' \<notin> set validStatuses"
    by (simp_all add: validStatuses_def)
  from updateOrderStatus_frame[OF h, of "''shipped''" 9] ok
  obtain ord' orders' where
    "updateOrderStatus 9 ''o1'' ''shipped'' [order1] = (Inr ord', orders')"
    "ord' = order1\<lparr>status := ''shipped'', updatedAt := 9\<rparr>"
    "Order_findById orders' ''o1'' = Some ord'" "length orders' = length [order1]"
    by blast
  moreover from this have "orders' = [ord']"
    by (cases orders') (auto simp: Order_findById_def split: if_splits)
  moreover from updateOrderStatus_frame[OF h, of "''refunded''" 9] bad
  have "updateOrderStatus 9 ''o1'' ''refunded'' [order1] = (Inl InvalidStatus, [order1])"
    by blast
  ultimately show ?thesis using h ok bad by simp
qed

section \<open>Properties of the user controller\<close>

subsection \<open>The collection\<close>

lemma User_findById_id: "User_findById users i = Some usr \<Longrightarrow> user_id usr = i"
  by (auto simp: User_findById_def find_Some_iff)

lemma User_deleteOne_removed:
  "User_findById (User_deleteOne usr users) (user_id usr) = None"
  by (induction users) (auto simp: User_findById_def User_deleteOne_def)

lemma User_deleteOne_others:
  "j \<noteq> user_id usr \<Longrightarrow> User_findById (User_deleteOne usr users) j = User_findById users j"
  by (induction users) (auto simp: User_findById_def User_deleteOne_def)

lemma find_snoc:
  "find P (xs @ [y]) = (case find P xs of None \<Rightarrow> (if P y then Some y else None) | Some x \<Rightarrow> Some x)"
  by (induction xs) auto

text \<open>Writing to a stored account returns the updated account, stores it under the same
  id and leaves every other account as it was.\<close>

lemma User_updateOne_found:
  "User_findById users i = Some usr \<Longrightarrow>
   \<exists>users'. User_updateOne users i stored
               = (Some (usr\<lparr>attrs := attrs usr ++ stored\<rparr>), users')
     \<and> User_findById users' i = Some (usr\<lparr>attrs := attrs usr ++ stored\<rparr>)
     \<and> (\<forall>j. j \<noteq> i \<longrightarrow> User_findById users' j = User_findById users j)
     \<and> length users' = length users"
proof (induction users)
  case Nil
  then show ?case by (simp add: User_findById_def)
next
  case (Cons u users)
  show ?case
  proof (cases "user_id u = i")
    case True
    with Cons.prems have "u = usr" by (simp add: User_findById_def)
    with True show ?thesis by (auto simp: User_findById_def)
  next
    case False
    with Cons.prems have "User_findById users i = Some usr" by (simp add: User_findById_def)
    from Cons.IH[OF this] obtain users' where
      "User_updateOne users i stored = (Some (usr\<lparr>attrs := attrs usr ++ stored\<rparr>), users')"
      "User_findById users' i = Some (usr\<lparr>attrs := attrs usr ++ stored\<rparr>)"
      "\<forall>j. j \<noteq> i \<longrightarrow> User_findById users' j = User_findById users j"
      "length users' = length users" by blast
    with False show ?thesis by (auto simp: User_findById_def)
  qed
qed

text \<open>The update is refused exactly when the setter refuses the value that the update
  has for a path of the schema; the values of an accepted update are those the setter
  gives for the paths of the schema that the update has.\<close>

lemma castUpdate_None_iff:
  "castUpdate setPath paths updates = None
     \<longleftrightarrow> (\<exists>path\<in>set paths. \<exists>v. updates path = Some v \<and> setPath path v = None)"
  by (induction paths) (auto split: option.splits)

lemma castUpdate_lookup:
  "castUpdate setPath paths updates = Some stored \<Longrightarrow>
   stored key = (if key \<in> set paths then Option.bind (updates key) (setPath key) else None)"
proof (induction paths arbitrary: stored)
  case Nil
  then show ?case by auto
next
  case (Cons path paths)
  then show ?case
    by (auto split: option.splits if_splits)
qed

text \<open>The \<open>updates\<close> object of a non-admin: the time of the update in \<^verbatim>\<open>updatedAt\<close>,
  the body's value in an allowed key, and nothing else. Of these keys the schema has
  \<^verbatim>\<open>updatedAt\<close>, \<^verbatim>\<open>displayName\<close> and \<^verbatim>\<open>profilePicture\<close>.\<close>

lemma buildUpdates_customer:
  "role ru \<noteq> ''admin'' \<Longrightarrow>
   buildUpdates now ru body key =
     (if key = ''updatedAt'' then Some (JNum (int now))
      else if key \<in> set allowedUpdates then body key else None)"
  by (simp add: buildUpdates_def restrict_map_def)

lemma castUpdate_customer_refused:
  assumes "role ru \<noteq> ''admin''"
  shows "castUpdate f User_paths (buildUpdates now ru body) = None
            \<longleftrightarrow> \<not> (f ''updatedAt'' (JNum (int now)) \<noteq> None
                 \<and> (\<forall>v. body ''displayName'' = Some v \<longrightarrow> f ''displayName'' v \<noteq> None)
                 \<and> (\<forall>v. body ''profilePicture'' = Some v \<longrightarrow> f ''profilePicture'' v \<noteq> None))"
proof -
  have "castUpdate f User_paths (buildUpdates now ru body) = None
          \<longleftrightarrow> ((\<exists>v. body ''displayName'' = Some v \<and> f ''displayName'' v = None)
                 \<or> (\<exists>v. body ''profilePicture'' = Some v \<and> f ''profilePicture'' v = None)
                 \<or> f ''updatedAt'' (JNum (int now)) = None)"
    unfolding castUpdate_None_iff
    by (simp add: buildUpdates_customer[OF assms] User_paths_def allowedUpdates_def)
  also have "\<dots> \<longleftrightarrow> \<not> (f ''updatedAt'' (JNum (int now)) \<noteq> None
                 \<and> (\<forall>v. body ''displayName'' = Some v \<longrightarrow> f ''displayName'' v \<noteq> None)
                 \<and> (\<forall>v. body ''profilePicture'' = Some v \<longrightarrow> f ''profilePicture'' v \<noteq> None))"
    by auto
  finally show ?thesis .
qed

lemma castUpdate_customer_stored:
  assumes "role ru \<noteq> ''admin''"
    and "castUpdate f User_paths (buildUpdates now ru body) = Some stored"
  shows "stored key =
           (if key = ''updatedAt'' then f ''updatedAt'' (JNum (int now))
            else if key = ''displayName'' \<or> key = ''profilePicture''
            then Option.bind (body key) (f key) else None)"
proof -
  have "stored key = (if key \<in> set User_paths
                      then Option.bind (buildUpdates now ru body key) (f key) else None)"
    using assms(2) by (rule castUpdate_lookup)
  then show ?thesis
    by (simp add: buildUpdates_customer[OF assms(1)] User_paths_def allowedUpdates_def)
qed

subsection \<open>The ownership check\<close>

text \<open>
  Claim C2 says that, whatever the action, a non-admin whose id is not the account's is
  denied with 403. \<^verbatim>\<open>getUserById\<close> and \<^verbatim>\<open>updateUser\<close> carry that check, each in its
  own lines; \<^verbatim>\<open>deleteUser\<close>, which its comment marks as for admins only, carries none.
  Here the customer \<open>u1\<close> asks for the account \<open>u3\<close> of another user: reading it is
  answered 403, deleting it is answered success and the account is gone.
\<close>

theorem deleteUser_mismatched_id:
  "role ann \<noteq> ''admin''
   \<and> id' ann \<noteq> user_id carolDoc
   \<and> getUserById (Some ann) ''u3'' [annDoc, bobDoc, carolDoc] = Inl NotAuthorizedView
   \<and> deleteUser (Some ann) ''u3'' [annDoc, bobDoc, carolDoc] = (Inr (), [annDoc, bobDoc])"
  by (simp add: ann_def annDoc_def bobDoc_def carolDoc_def User_findById_def getUserById_def
        deleteUser_def User_deleteOne_def)

subsection \<open>Updating one's own profile\<close>

text \<open>
  Claim C6, as stated: a non-admin's patch of its own profile whose \<^verbatim>\<open>role\<close> differs
  from the account's role is rejected with 403, and otherwise the four allowed keys of
  the patch are applied, the other keys are dropped and their stored fields stay as they
  are. It is false of the customer \<open>u1\<close>, whose stored role is \<open>customer\<close>. A patch with
  the empty string as \<^verbatim>\<open>role\<close>, a key \<^verbatim>\<open>updatedAt\<close> and a \<^verbatim>\<open>phoneNumber\<close> is not
  rejected, \<^verbatim>\<open>req.body.role && \<dots>\<close> guarding the rejection, and the update succeeds;
  the stored \<^verbatim>\<open>updatedAt\<close> becomes the time of the update, and the phone number is not
  stored, the schema declaring no such path. And a patch whose \<^verbatim>\<open>role\<close> is the stored
  \<open>customer\<close> is answered 403: the schema declares no \<^verbatim>\<open>role\<close>, so \<^verbatim>\<open>user.role\<close> is
  \<^verbatim>\<open>undefined\<close>.
\<close>

theorem updateUser_falsy_role_counterexample:
  "role ann \<noteq> ''admin''
   \<and> User_findById [annDoc, bobDoc] (id' ann) = Some annDoc
   \<and> attrs annDoc ''role'' = Some (JStr ''customer'')
   \<and> attrs annDoc ''updatedAt'' = None
   \<and> updateUser trimSetter 9 (Some ann) ''me''
        [''role'' \<mapsto> JStr [], ''updatedAt'' \<mapsto> JNum 0, ''phoneNumber'' \<mapsto> JStr ''555'']
        [annDoc, bobDoc]
     = (Inr (Some \<lparr>user_id = ''u1'',
                   attrs = [''email'' \<mapsto> JStr ''ann@example.com'',
                            ''role'' \<mapsto> JStr ''customer'', ''updatedAt'' \<mapsto> JNum 9]\<rparr>),
        [\<lparr>user_id = ''u1'',
          attrs = [''email'' \<mapsto> JStr ''ann@example.com'',
                   ''role'' \<mapsto> JStr ''customer'', ''updatedAt'' \<mapsto> JNum 9]\<rparr>,
         bobDoc])
   \<and> updateUser trimSetter 9 (Some ann) ''me'' [''role'' \<mapsto> JStr ''customer'']
        [annDoc, bobDoc]
     = (Inl NotAuthorizedRole, [annDoc, bobDoc])"
  by (simp add: ann_def annDoc_def bobDoc_def updateUser_def User_findById_def buildUpdates_def
        allowedUpdates_def Let_def User_get_def User_paths_def User_findByIdAndUpdate_def
        trimSetter_def trimSpaces_def)

text \<open>
  Claim C6, amended, for a non-admin with a session id that updates its own stored
  account, named by its id or by \<open>me\<close>. A patch whose \<^verbatim>\<open>role\<close> is truthy and differs
  from the account's stored role is answered 403 and nothing is written. A patch whose
  \<^verbatim>\<open>role\<close> is absent or falsy is handed to \<^verbatim>\<open>findByIdAndUpdate\<close>. When the schema
  accepts the time of the update for \<^verbatim>\<open>updatedAt\<close> and the patch's values for
  \<^verbatim>\<open>displayName\<close> and \<^verbatim>\<open>profilePicture\<close>, the update succeeds and returns the account
  as it is then stored, under the same id: \<^verbatim>\<open>updatedAt\<close> holds the time of the
  update, \<^verbatim>\<open>displayName\<close> and \<^verbatim>\<open>profilePicture\<close> hold the patch's values where the
  patch has them, each as the schema's casting and setters store it, every other field
  except \<^verbatim>\<open>phoneNumber\<close> and \<^verbatim>\<open>address\<close> is as before, and so is every other
  account. When the schema refuses one
  of these values, the error is passed on and nothing is written. Nothing is said of a
  truthy \<^verbatim>\<open>role\<close> equal to the stored one, nor of \<^verbatim>\<open>phoneNumber\<close> and \<^verbatim>\<open>address\<close>.
\<close>

theorem updateUser_own_profile:
  assumes "role ru \<noteq> ''admin''" and "id' ru \<noteq> []"
    and "idParam = ''me'' \<or> idParam = id' ru"
    and "User_findById users (id' ru) = Some usr"
  shows "(truthy (body ''role'') \<and> body ''role'' \<noteq> attrs usr ''role'' \<longrightarrow>
            updateUser setter now (Some ru) idParam body users = (Inl NotAuthorizedRole, users))
       \<and> (\<not> truthy (body ''role'') \<longrightarrow>
            (if setter users (id' ru) ''updatedAt'' (JNum (int now)) \<noteq> None
                \<and> (\<forall>v. body ''displayName'' = Some v
                        \<longrightarrow> setter users (id' ru) ''displayName'' v \<noteq> None)
                \<and> (\<forall>v. body ''profilePicture'' = Some v
                        \<longrightarrow> setter users (id' ru) ''profilePicture'' v \<noteq> None)
             then (\<exists>usr' users'.
                     updateUser setter now (Some ru) idParam body users
                       = (Inr (Some usr'), users')
                   \<and> User_findById users' (id' ru) = Some usr'
                   \<and> user_id usr' = user_id usr
                   \<and> (\<forall>key. key \<noteq> ''phoneNumber'' \<and> key \<noteq> ''address'' \<longrightarrow>
                         attrs usr' key =
                           (if key = ''updatedAt''
                            then setter users (id' ru) ''updatedAt'' (JNum (int now))
                            else if (key = ''displayName'' \<or> key = ''profilePicture'')
                                    \<and> body key \<noteq> None
                            then Option.bind (body key) (setter users (id' ru) key)
                            else attrs usr key))
                   \<and> (\<forall>j. j \<noteq> id' ru \<longrightarrow> User_findById users' j = User_findById users j))
             else updateUser setter now (Some ru) idParam body users
                    = (Inl (Thrown ''update rejected''), users)))"
proof -
  let ?f = "setter users (id' ru)"
  let ?upd = "buildUpdates now ru body"
  let ?ok = "?f ''updatedAt'' (JNum (int now)) \<noteq> None
             \<and> (\<forall>v. body ''displayName'' = Some v \<longrightarrow> ?f ''displayName'' v \<noteq> None)
             \<and> (\<forall>v. body ''profilePicture'' = Some v \<longrightarrow> ?f ''profilePicture'' v \<noteq> None)"
  from assms(4) have uid: "user_id usr = id' ru" by (rule User_findById_id)
  from assms(3) have target: "(if idParam = ''me'' then id' ru else idParam) = id' ru" by auto
  note upd = buildUpdates_customer[OF assms(1), of now body]
  have norole: "User_get usr ''role'' = None"
    by (simp add: User_get_def User_paths_def)
  have rejected: "updateUser setter now (Some ru) idParam body users = (Inl NotAuthorizedRole, users)"
    if "truthy (body ''role'')"
  proof -
    from that have "body ''role'' \<noteq> None" by (cases "body ''role''") auto
    with that assms uid target norole show ?thesis
      by (simp add: updateUser_def)
  qed
  have through: "updateUser setter now (Some ru) idParam body users
                   = User_findByIdAndUpdate setter users (id' ru) ?upd"
    if "\<not> truthy (body ''role'')"
    using that assms uid target by (simp add: updateUser_def)
  have noid: "?upd ''_id'' = None"
    by (simp add: upd allowedUpdates_def)
  have refused: "castUpdate ?f User_paths ?upd = None \<longleftrightarrow> \<not> ?ok"
    by (rule castUpdate_customer_refused[OF assms(1)])
  have fail: "User_findByIdAndUpdate setter users (id' ru) ?upd
                = (Inl (Thrown ''update rejected''), users)"
    if "\<not> ?ok"
    using that refused noid by (simp add: User_findByIdAndUpdate_def)
  have success: "\<exists>usr' users'.
                     updateUser setter now (Some ru) idParam body users
                       = (Inr (Some usr'), users')
                   \<and> User_findById users' (id' ru) = Some usr'
                   \<and> user_id usr' = user_id usr
                   \<and> (\<forall>key. key \<noteq> ''phoneNumber'' \<and> key \<noteq> ''address'' \<longrightarrow>
                         attrs usr' key =
                           (if key = ''updatedAt''
                            then setter users (id' ru) ''updatedAt'' (JNum (int now))
                            else if (key = ''displayName'' \<or> key = ''profilePicture'')
                                    \<and> body key \<noteq> None
                            then Option.bind (body key) (setter users (id' ru) key)
                            else attrs usr key))
                   \<and> (\<forall>j. j \<noteq> id' ru \<longrightarrow> User_findById users' j = User_findById users j)"
    if nr: "\<not> truthy (body ''role'')" and ok: "?ok"
  proof -
    from ok refused have "castUpdate ?f User_paths ?upd \<noteq> None" by simp
    then obtain stored where stored: "castUpdate ?f User_paths ?upd = Some stored"
      by (cases "castUpdate ?f User_paths ?upd") simp_all
    note look = castUpdate_customer_stored[OF assms(1) stored]
    let ?usr' = "usr\<lparr>attrs := attrs usr ++ stored\<rparr>"
    from User_updateOne_found[OF assms(4), of stored] obtain users' where
      one: "User_updateOne users (id' ru) stored = (Some ?usr', users')"
      and found: "User_findById users' (id' ru) = Some ?usr'"
      and others: "\<forall>j. j \<noteq> id' ru \<longrightarrow> User_findById users' j = User_findById users j"
      by (elim exE conjE)
    have res: "updateUser setter now (Some ru) idParam body users = (Inr (Some ?usr'), users')"
      using stored one noid by (simp add: through[OF nr] User_findByIdAndUpdate_def)
    have keys: "attrs ?usr' key =
                           (if key = ''updatedAt''
                            then ?f ''updatedAt'' (JNum (int now))
                            else if (key = ''displayName'' \<or> key = ''profilePicture'')
                                    \<and> body key \<noteq> None
                            then Option.bind (body key) (?f key)
                            else attrs usr key)" for key
    proof (cases "stored key")
      case None
      with look[of key] ok show ?thesis
        by (cases "body key") (auto simp: map_add_def split: if_splits)
    next
      case (Some w)
      with look[of key] ok show ?thesis
        by (cases "body key") (auto simp: map_add_def split: if_splits)
    qed
    have same: "user_id ?usr' = user_id usr" by simp
    show ?thesis
    proof (intro exI conjI allI impI)
      show "updateUser setter now (Some ru) idParam body users = (Inr (Some ?usr'), users')"
        by (rule res)
      show "User_findById users' (id' ru) = Some ?usr'" by (rule found)
      show "user_id ?usr' = user_id usr" by (rule same)
      show "attrs ?usr' key =
                           (if key = ''updatedAt''
                            then ?f ''updatedAt'' (JNum (int now))
                            else if (key = ''displayName'' \<or> key = ''profilePicture'')
                                    \<and> body key \<noteq> None
                            then Option.bind (body key) (?f key)
                            else attrs usr key)" for key
        by (rule keys)
      show "User_findById users' j = User_findById users j" if "j \<noteq> id' ru" for j
        using others that by simp
    qed
  qed
  show ?thesis
  proof (intro conjI impI)
    assume "truthy (body ''role'') \<and> body ''role'' \<noteq> attrs usr ''role''"
    then have "truthy (body ''role'')" by (rule conjunct1)
    then show "updateUser setter now (Some ru) idParam body users = (Inl NotAuthorizedRole, users)"
      by (rule rejected)
  next
    assume nr: "\<not> truthy (body ''role'')"
    show "if ?ok
          then (\<exists>usr' users'.
                     updateUser setter now (Some ru) idParam body users
                       = (Inr (Some usr'), users')
                   \<and> User_findById users' (id' ru) = Some usr'
                   \<and> user_id usr' = user_id usr
                   \<and> (\<forall>key. key \<noteq> ''phoneNumber'' \<and> key \<noteq> ''address'' \<longrightarrow>
                         attrs usr' key =
                           (if key = ''updatedAt''
                            then setter users (id' ru) ''updatedAt'' (JNum (int now))
                            else if (key = ''displayName'' \<or> key = ''profilePicture'')
                                    \<and> body key \<noteq> None
                            then Option.bind (body key) (setter users (id' ru) key)
                            else attrs usr key))
                   \<and> (\<forall>j. j \<noteq> id' ru \<longrightarrow> User_findById users' j = User_findById users j))
             else updateUser setter now (Some ru) idParam body users
                    = (Inl (Thrown ''update rejected''), users)"
    proof (cases "?ok")
      case True
      from success[OF nr True] show ?thesis by (subst if_P[OF True])
    next
      case False
      from fail[OF False] show ?thesis by (subst if_not_P[OF False]) (simp only: through[OF nr])
    qed
  qed
qed

theorem updateUser_own_profile_witness:
  "role ann \<noteq> ''admin'' \<and> id' ann \<noteq> []
   \<and> User_findById [annDoc, bobDoc] (id' ann) = Some annDoc
   \<and> updateUser trimSetter 9 (Some ann) ''me''
        [''role'' \<mapsto> JStr ''admin'', ''displayName'' \<mapsto> JStr ''Annie''] [annDoc, bobDoc]
       = (Inl NotAuthorizedRole, [annDoc, bobDoc])
   \<and> updateUser trimSetter 9 (Some ann) ''u1''
        [''displayName'' \<mapsto> JStr '' Annie '', ''email'' \<mapsto> JStr ''eve@example.com'']
        [annDoc, bobDoc]
       = (Inr (Some \<lparr>user_id = ''u1'',
                     attrs = [''email'' \<mapsto> JStr ''ann@example.com'',
                              ''role'' \<mapsto> JStr ''customer'',
                              ''updatedAt'' \<mapsto> JNum 9,
                              ''displayName'' \<mapsto> JStr ''Annie'']\<rparr>),
          [\<lparr>user_id = ''u1'',
            attrs = [''email'' \<mapsto> JStr ''ann@example.com'',
                     ''role'' \<mapsto> JStr ''customer'',
                     ''updatedAt'' \<mapsto> JNum 9,
                     ''displayName'' \<mapsto> JStr ''Annie'']\<rparr>,
           bobDoc])
   \<and> updateUser (\<lambda>users i path v. if path = ''displayName'' then None else Some v)
        9 (Some ann) ''u1'' [''displayName'' \<mapsto> JNum 5] [annDoc, bobDoc]
       = (Inl (Thrown ''update rejected''), [annDoc, bobDoc])"
proof -
  let ?users = "[annDoc, bobDoc]"
  let ?escalate = "[''role'' \<mapsto> JStr ''admin'', ''displayName'' \<mapsto> JStr ''Annie'']"
  let ?rename = "[''displayName'' \<mapsto> JStr '' Annie '', ''email'' \<mapsto> JStr ''eve@example.com'']"
  let ?refuse = "\<lambda>(users::userDoc list) (i::objectId) path (v::jsval).
                   if path = ''displayName'' then None else Some v"
  let ?number = "[''displayName'' \<mapsto> JNum 5]"
  have r: "role ann \<noteq> ''admin''" and i: "id' ann \<noteq> []"
    and me: "''me'' = ''me'' \<or> ''me'' = id' ann" and own: "''u1'' = ''me'' \<or> ''u1'' = id' ann"
    and f: "User_findById ?users (id' ann) = Some annDoc"
    by (simp_all add: ann_def annDoc_def User_findById_def)
  have "truthy (?escalate ''role'') \<and> ?escalate ''role'' \<noteq> attrs annDoc ''role''"
    by (simp add: annDoc_def)
  with updateUser_own_profile[OF r i me f, of ?escalate trimSetter 9]
  have a: "updateUser trimSetter 9 (Some ann) ''me'' ?escalate ?users
             = (Inl NotAuthorizedRole, ?users)"
    by simp
  have "\<not> truthy (?rename ''role'')" by simp
  moreover have "trimSetter ?users (id' ann) ''updatedAt'' (JNum (int 9)) \<noteq> None
       \<and> (\<forall>v. ?rename ''displayName'' = Some v
               \<longrightarrow> trimSetter ?users (id' ann) ''displayName'' v \<noteq> None)
       \<and> (\<forall>v. ?rename ''profilePicture'' = Some v
               \<longrightarrow> trimSetter ?users (id' ann) ''profilePicture'' v \<noteq> None)"
    by (simp add: trimSetter_def)
  ultimately obtain usr' users' where
    "updateUser trimSetter 9 (Some ann) ''u1'' ?rename ?users = (Inr (Some usr'), users')"
    using updateUser_own_profile[OF r i own f, of ?rename trimSetter 9] by auto
  then have b: "updateUser trimSetter 9 (Some ann) ''u1'' ?rename ?users
       = (Inr (Some \<lparr>user_id = ''u1'',
                     attrs = [''email'' \<mapsto> JStr ''ann@example.com'',
                              ''role'' \<mapsto> JStr ''customer'',
                              ''updatedAt'' \<mapsto> JNum 9,
                              ''displayName'' \<mapsto> JStr ''Annie'']\<rparr>),
          [\<lparr>user_id = ''u1'',
            attrs = [''email'' \<mapsto> JStr ''ann@example.com'',
                     ''role'' \<mapsto> JStr ''customer'',
                     ''updatedAt'' \<mapsto> JNum 9,
                     ''displayName'' \<mapsto> JStr ''Annie'']\<rparr>,
           bobDoc])"
    by (simp add: ann_def annDoc_def bobDoc_def updateUser_def User_findById_def
          buildUpdates_def allowedUpdates_def Let_def User_get_def User_paths_def
          User_findByIdAndUpdate_def trimSetter_def trimSpaces_def)
  have "\<not> truthy (?number ''role'')" by simp
  moreover have "\<not> (?refuse ?users (id' ann) ''updatedAt'' (JNum (int 9)) \<noteq> None
       \<and> (\<forall>v. ?number ''displayName'' = Some v
               \<longrightarrow> ?refuse ?users (id' ann) ''displayName'' v \<noteq> None)
       \<and> (\<forall>v. ?number ''profilePicture'' = Some v
               \<longrightarrow> ?refuse ?users (id' ann) ''profilePicture'' v \<noteq> None))"
    by simp
  ultimately have c: "updateUser ?refuse 9 (Some ann) ''u1'' ?number ?users
                        = (Inl (Thrown ''update rejected''), ?users)"
    using updateUser_own_profile[OF r i own f, of ?number ?refuse 9] by simp
  from a b c r i f show ?thesis by simp
qed

subsection \<open>Deleting an account\<close>

text \<open>
  Claim C7. When an admin deletes its own account: if at most one stored account has role
  admin, \<^verbatim>\<open>deleteUser\<close> fails with the last-admin answer (status 400) and deletes
  nothing; if two or more have, the deletion succeeds: the account is gone and every
  other account is as before.
\<close>

theorem deleteUser_last_admin:
  assumes "role ru = ''admin''" and "User_findById users (id' ru) = Some usr"
  shows "(User_countDocuments users ''role'' (JStr ''admin'') \<le> 1 \<longrightarrow>
            deleteUser (Some ru) (id' ru) users = (Inl LastAdmin, users))
       \<and> (2 \<le> User_countDocuments users ''role'' (JStr ''admin'') \<longrightarrow>
            (\<exists>users'. deleteUser (Some ru) (id' ru) users = (Inr (), users')
               \<and> User_findById users' (id' ru) = None
               \<and> (\<forall>j. j \<noteq> id' ru \<longrightarrow> User_findById users' j = User_findById users j)))"
proof -
  from assms(2) have uid: "user_id usr = id' ru" by (rule User_findById_id)
  show ?thesis
    using assms uid User_deleteOne_removed[of usr users] User_deleteOne_others[of _ usr users]
    by (auto simp: deleteUser_def)
qed

theorem deleteUser_last_admin_witness:
  "role bob = ''admin''
   \<and> User_findById [annDoc, bobDoc] (id' bob) = Some bobDoc
   \<and> User_countDocuments [annDoc, bobDoc] ''role'' (JStr ''admin'') = 1
   \<and> deleteUser (Some bob) ''u2'' [annDoc, bobDoc] = (Inl LastAdmin, [annDoc, bobDoc])
   \<and> User_findById [annDoc, bobDoc, carolDoc] (id' bob) = Some bobDoc
   \<and> User_countDocuments [annDoc, bobDoc, carolDoc] ''role'' (JStr ''admin'') = 2
   \<and> deleteUser (Some bob) ''u2'' [annDoc, bobDoc, carolDoc] = (Inr (), [annDoc, carolDoc])"
proof -
  have r: "role bob = ''admin''" and i: "id' bob = ''u2''"
    and f1: "User_findById [annDoc, bobDoc] (id' bob) = Some bobDoc"
    and f2: "User_findById [annDoc, bobDoc, carolDoc] (id' bob) = Some bobDoc"
    and c1: "User_countDocuments [annDoc, bobDoc] ''role'' (JStr ''admin'') = 1"
    and c2: "User_countDocuments [annDoc, bobDoc, carolDoc] ''role'' (JStr ''admin'') = 2"
    by (simp_all add: bob_def annDoc_def bobDoc_def carolDoc_def User_findById_def
          User_countDocuments_def)
  from deleteUser_last_admin[OF r f1] c1 i
  have "deleteUser (Some bob) ''u2'' [annDoc, bobDoc] = (Inl LastAdmin, [annDoc, bobDoc])"
    by simp
  moreover from deleteUser_last_admin[OF r f2] c2 i
  obtain users' where "deleteUser (Some bob) ''u2'' [annDoc, bobDoc, carolDoc] = (Inr (), users')"
    by auto
  then have "deleteUser (Some bob) ''u2'' [annDoc, bobDoc, carolDoc] = (Inr (), [annDoc, carolDoc])"
    by (simp add: bob_def annDoc_def bobDoc_def carolDoc_def User_findById_def
          User_countDocuments_def deleteUser_def User_deleteOne_def)
  ultimately show ?thesis using r f1 f2 c1 c2 by blast
qed

text \<open>
  Claim C8 says that \<^verbatim>\<open>deleteUser\<close> denies every non-admin and deletes nothing. The
  handler has no check of the role: its comment leaves the check to a middleware, and
  the route mounts \<^verbatim>\<open>isAuthenticated\<close> only. Here the customer \<open>u1\<close> deletes the
  account \<open>u2\<close>, the only admin, and is answered success.
\<close>

theorem deleteUser_by_customer:
  "deleteUser (Some ann) ''u2'' [annDoc, bobDoc] = (Inr (), [annDoc])"
  by (simp add: ann_def annDoc_def bobDoc_def User_findById_def deleteUser_def User_deleteOne_def)

subsection \<open>Creating the account at login\<close>

text \<open>
  Claim C9. \<^verbatim>\<open>createUser\<close> is idempotent. When an account with the login's email
  exists, the call writes nothing. Running it twice for the same login leaves the
  collection as running it once does; and once a first run has succeeded, a run for any
  login with that email writes nothing.
\<close>

theorem createUser_idempotent:
  assumes "emails ru = email # rest" and "emails ru' = email # rest'"
  shows "(User_findOne users ''email'' (JStr email) \<noteq> None \<longrightarrow>
            createUser accepts now newId (Some ru) users = (Inr (), users))
       \<and> snd (createUser accepts now' newId' (Some ru)
               (snd (createUser accepts now newId (Some ru) users)))
           = snd (createUser accepts now newId (Some ru) users)
       \<and> (fst (createUser accepts now newId (Some ru) users) = Inr () \<longrightarrow>
            createUser accepts now' newId' (Some ru')
               (snd (createUser accepts now newId (Some ru) users))
             = (Inr (), snd (createUser accepts now newId (Some ru) users)))"
proof (cases "User_findOne users ''email'' (JStr email)")
  case (Some existingUser)
  with assms show ?thesis by (simp add: createUser_def)
next
  case None
  let ?given = "[''githubId'' \<mapsto> JStr (id' ru), ''email'' \<mapsto> JStr email,
                 ''displayName'' \<mapsto> JStr (displayName ru), ''isAdmin'' \<mapsto> JBool False]"
  let ?doc = "\<lparr>user_id = newId,
               attrs = (User_defaults now ++ ?given)(''updatedAt'' \<mapsto> JNum (int now))\<rparr>"
  show ?thesis
  proof (cases "accepts ?given users")
    case True
    with None assms
    have first: "createUser accepts now newId (Some ru) users = (Inr (), users @ [?doc])"
      by (simp add: createUser_def User_save_def)
    have "attrs ?doc ''email'' = Some (JStr email)" by simp
    then have "User_findOne (users @ [?doc]) ''email'' (JStr email) = Some ?doc"
      using None by (simp add: User_findOne_def find_snoc)
    with assms
    have "createUser accepts now' newId' (Some r) (users @ [?doc]) = (Inr (), users @ [?doc])"
      if "r = ru \<or> r = ru'" for r
      using that by (auto simp: createUser_def)
    with first None show ?thesis by simp
  next
    case False
    with None assms
    have "createUser accepts n i (Some ru) users = (Inl (Thrown ''save rejected''), users)"
      for n i
      by (simp add: createUser_def User_save_def)
    with None show ?thesis by simp
  qed
qed

theorem createUser_idempotent_witness:
  "emails ann = ''ann@example.com'' # []
   \<and> User_findOne [annDoc] ''email'' (JStr ''ann@example.com'') \<noteq> None
   \<and> createUser (\<lambda>_ _. True) 3 ''n1'' (Some ann) [annDoc] = (Inr (), [annDoc])
   \<and> map user_id (snd (createUser (\<lambda>_ _. True) 3 ''n1'' (Some ann) [])) = [''n1'']
   \<and> snd (createUser (\<lambda>_ _. True) 5 ''n2'' (Some ann)
            (snd (createUser (\<lambda>_ _. True) 3 ''n1'' (Some ann) [])))
       = snd (createUser (\<lambda>_ _. True) 3 ''n1'' (Some ann) [])"
proof -
  have e: "emails ann = ''ann@example.com'' # []" by (simp add: ann_def annDoc_def)
  have f: "User_findOne [annDoc] ''email'' (JStr ''ann@example.com'') \<noteq> None"
    by (simp add: ann_def annDoc_def User_findOne_def)
  from createUser_idempotent[OF e e, where users = "[annDoc]"
        and accepts = "\<lambda>_ _. True" and now = 3 and newId = "''n1''"] f
  have "createUser (\<lambda>_ _. True) 3 ''n1'' (Some ann) [annDoc] = (Inr (), [annDoc])"
    by blast
  moreover from createUser_idempotent[OF e e, where users = "[]" and accepts = "\<lambda>_ _. True"
        and now = 3 and newId = "''n1''" and now' = 5 and newId' = "''n2''"]
  have "snd (createUser (\<lambda>_ _. True) 5 ''n2'' (Some ann)
            (snd (createUser (\<lambda>_ _. True) 3 ''n1'' (Some ann) [])))
       = snd (createUser (\<lambda>_ _. True) 3 ''n1'' (Some ann) [])"
    by blast
  moreover have "map user_id (snd (createUser (\<lambda>_ _. True) 3 ''n1'' (Some ann) [])) = [''n1'']"
    by (simp add: ann_def annDoc_def createUser_def User_findOne_def User_save_def)
  ultimately show ?thesis using e f by blast
qed

subsection \<open>Reading a profile without a session\<close>

text \<open>
  Claim C10. For every stored account and an id parameter other than \<open>me\<close>,
  \<^verbatim>\<open>getUserById\<close> without a session user succeeds and returns the account: the
  ownership check runs only when \<^verbatim>\<open>req.user\<close> is present.
\<close>

theorem getUserById_without_session:
  assumes "User_findById users i = Some usr" and "i \<noteq> ''me''"
  shows "getUserById None i users = Inr usr"
  using assms by (simp add: getUserById_def)

theorem getUserById_without_session_witness:
  "User_findById [annDoc, bobDoc] ''u2'' = Some bobDoc
   \<and> ''u2'' \<noteq> ''me''
   \<and> getUserById None ''u2'' [annDoc, bobDoc] = Inr bobDoc"
proof -
  have f: "User_findById [annDoc, bobDoc] ''u2'' = Some bobDoc"
    by (simp add: annDoc_def bobDoc_def User_findById_def)
  have n: "''u2'' \<noteq> ''me''" by simp
  from getUserById_without_session[OF f n] f n show ?thesis by blast
qed

end
